theory Spec2Isabelle
  imports Main
begin

section \<open>JavaScript values\<close>

text \<open>
  A number is \<^verbatim>\<open>NaN\<close>, an infinity or a zero (negative when the flag is set), or a
  finite number other than zero. A finite number is given by its sign and its shortest
  decimal form, as the language standard does to define how a number is printed: the
  digits \<open>s\<close>, a natural number that is not a multiple of 10, and the exponent \<open>n\<close>,
  for the number \<open>s \<times> 10\<^sup>n\<^sup>-\<^sup>k\<close> where \<open>k\<close> is the number of digits of \<open>s\<close>. So
  \<open>Finite False 5 1\<close> is 5, \<open>Finite False 6 2\<close> is 60, \<open>Finite True 125 2\<close> is -12.5 and
  \<open>Finite False 1 22\<close> is \<open>10\<^sup>2\<^sup>1\<close>. The code never calculates with a number: it prints
  it and tests whether it is truthy.
\<close>

datatype js_number =
    NaN
  | Infinity bool
  | Zero bool
  | Finite bool nat int

text \<open>
  The values that reach the tagged-template parser and the error classifier. Strings are
  lists of 8-bit characters. An object is the list of its own enumerable properties in
  enumeration order (a JavaScript object has each key once); every property holds a
  value of this type, so no property of an object or an array is a function.
\<close>

datatype jsval =
    JUndefined
  | JNull
  | JBool bool
  | JNum js_number
  | JStr string
  | JArr "jsval list"
  | JObj "(string \<times> jsval) list"

text \<open>Every exception the modelled code can raise is a \<^verbatim>\<open>TypeError\<close>.\<close>

datatype js_error = TypeError

fun nat_to_string :: "nat \<Rightarrow> string" where
  "nat_to_string n =
     (if n < 10 then [''0123456789'' ! n]
      else nat_to_string (n div 10) @ [''0123456789'' ! (n mod 10)])"

declare nat_to_string.simps [simp del]

text \<open>
  \<^verbatim>\<open>Number::toString\<close> of the standard on a finite number greater than zero, with \<open>k\<close>
  the number of digits of \<open>s\<close>: plain digits followed by zeros when \<open>k \<le> n \<le> 21\<close>, a
  decimal point inside the digits when \<open>0 < n \<le> 21\<close>, a leading \<^verbatim>\<open>0.\<close> and zeros when
  \<open>-6 < n \<le> 0\<close>, and the exponent notation otherwise.
\<close>

definition finite_toString :: "nat \<Rightarrow> int \<Rightarrow> string" where
  "finite_toString s n =
     (let digits = nat_to_string s;
          k = int (length digits);
          exponent = (if n - 1 < 0 then ''-'' else ''+'') @ nat_to_string (nat \<bar>n - 1\<bar>)
      in
      if k \<le> n \<and> n \<le> 21 then digits @ replicate (nat (n - k)) CHR ''0''
      else if 0 < n \<and> n \<le> 21 then take (nat n) digits @ ''.'' @ drop (nat n) digits
      else if - 6 < n \<and> n \<le> 0 then ''0.'' @ replicate (nat (- n)) CHR ''0'' @ digits
      else if k = 1 then digits @ ''e'' @ exponent
      else take 1 digits @ ''.'' @ drop 1 digits @ ''e'' @ exponent)"

definition Number_toString :: "js_number \<Rightarrow> string" where
  "Number_toString x =
     (case x of
        NaN \<Rightarrow> ''NaN''
      | Infinity negative \<Rightarrow> (if negative then ''-Infinity'' else ''Infinity'')
      | Zero negative \<Rightarrow> ''0''
      | Finite negative s n \<Rightarrow> (if negative then ''-'' else []) @ finite_toString s n)"

text \<open>The number that a length is: its digits without the zeros at the end.\<close>

fun strip_zeros :: "nat \<Rightarrow> nat" where
  "strip_zeros s = (if s \<noteq> 0 \<and> s mod 10 = 0 then strip_zeros (s div 10) else s)"

declare strip_zeros.simps [simp del]

definition number_of_nat :: "nat \<Rightarrow> js_number" where
  "number_of_nat m =
     (if m = 0 then Zero False
      else Finite False (strip_zeros m) (int (length (nat_to_string m))))"

text \<open>\<^verbatim>\<open>Array.prototype.join\<close> on an array of strings.\<close>

fun join :: "string \<Rightarrow> string list \<Rightarrow> string" where
  "join sep [] = []"
| "join sep [x] = x"
| "join sep (x # y # ys) = x @ sep @ join sep (y # ys)"

text \<open>
  String conversion, as a template literal or \<^verbatim>\<open>+=\<close> on a string applies it. An array
  is its elements joined by commas, with \<^verbatim>\<open>null\<close> and \<^verbatim>\<open>undefined\<close> elements empty.
  An object is converted by its \<^verbatim>\<open>toString\<close> method: the inherited one gives
  \<^verbatim>\<open>[object Object]\<close>; an object with a property of its own named \<^verbatim>\<open>toString\<close>, which is
  not a function, has no method that gives a primitive, and the conversion throws.
\<close>

fun js_to_string :: "jsval \<Rightarrow> js_error + string"
  and join_to_string :: "jsval list \<Rightarrow> js_error + string" where
  "js_to_string JUndefined = Inr ''undefined''"
| "js_to_string JNull = Inr ''null''"
| "js_to_string (JBool b) = Inr (if b then ''true'' else ''false'')"
| "js_to_string (JNum x) = Inr (Number_toString x)"
| "js_to_string (JStr s) = Inr s"
| "js_to_string (JArr xs) = join_to_string xs"
| "js_to_string (JObj kvs) =
     (if ''toString'' \<in> set (map fst kvs) then Inl TypeError else Inr ''[object Object]'')"
| "join_to_string [] = Inr []"
| "join_to_string (x # xs) =
     (case (if x = JUndefined \<or> x = JNull then Inr [] else js_to_string x) of
        Inl e \<Rightarrow> Inl e
      | Inr s \<Rightarrow>
          (if xs = [] then Inr s
           else (case join_to_string xs of Inl e \<Rightarrow> Inl e | Inr t \<Rightarrow> Inr (s @ '','' @ t))))"

definition truthy :: "jsval \<Rightarrow> bool" where
  "truthy v =
     (case v of
        JUndefined \<Rightarrow> False
      | JNull \<Rightarrow> False
      | JBool b \<Rightarrow> b
      | JNum x \<Rightarrow> (case x of NaN \<Rightarrow> False | Zero negative \<Rightarrow> False | _ \<Rightarrow> True)
      | JStr s \<Rightarrow> s \<noteq> []
      | JArr xs \<Rightarrow> True
      | JObj kvs \<Rightarrow> True)"

text \<open>\<^verbatim>\<open>typeof v === 'object'\<close>: also true of \<^verbatim>\<open>null\<close>.\<close>

definition typeof_object :: "jsval \<Rightarrow> bool" where
  "typeof_object v = (case v of JNull \<Rightarrow> True | JArr xs \<Rightarrow> True | JObj kvs \<Rightarrow> True | _ \<Rightarrow> False)"

subsection \<open>Properties\<close>

text \<open>
  The own enumerable properties of a value, as \<^verbatim>\<open>for ... in\<close>, \<^verbatim>\<open>Object.keys\<close> and
  object spread see them: the entries of an object, the indices of an array or of a
  string. The \<^verbatim>\<open>length\<close> of an array or of a string is not enumerable.
\<close>

definition index_keys :: "nat \<Rightarrow> string list" where
  "index_keys n = map nat_to_string [0..<n]"

definition entries :: "jsval \<Rightarrow> (string \<times> jsval) list" where
  "entries v =
     (case v of
        JObj kvs \<Rightarrow> kvs
      | JArr xs \<Rightarrow> zip (index_keys (length xs)) xs
      | JStr s \<Rightarrow> zip (index_keys (length s)) (map (\<lambda>c. JStr [c]) s)
      | _ \<Rightarrow> [])"

definition own_keys :: "jsval \<Rightarrow> string list" where
  "own_keys v = map fst (entries v)"

text \<open>
  \<^verbatim>\<open>v[key]\<close> on a value that is neither \<^verbatim>\<open>undefined\<close> nor \<^verbatim>\<open>null\<close>: a property of its
  own, or the \<^verbatim>\<open>length\<close> of an array or of a string, and \<^verbatim>\<open>undefined\<close> for any other
  key. A key that names a method inherited from a prototype (\<^verbatim>\<open>constructor\<close>,
  \<^verbatim>\<open>toString\<close> and the like) reads a function, which is not a value of the model; the
  parser reads such a key only in a row of \<^verbatim>\<open>EscapeKeysAndValues\<close> that lacks a key of
  the first row.
\<close>

definition get_prop :: "jsval \<Rightarrow> string \<Rightarrow> jsval" where
  "get_prop v key =
     (case map_of (entries v) key of
        Some x \<Rightarrow> x
      | None \<Rightarrow>
          (if key = ''length'' then
             (case v of
                JArr xs \<Rightarrow> JNum (number_of_nat (length xs))
              | JStr s \<Rightarrow> JNum (number_of_nat (length s))
              | _ \<Rightarrow> JUndefined)
           else JUndefined))"

text \<open>\<^verbatim>\<open>v[key]\<close> in general: reading a property of \<^verbatim>\<open>undefined\<close> or \<^verbatim>\<open>null\<close> throws.\<close>

definition read_prop :: "jsval \<Rightarrow> string \<Rightarrow> js_error + jsval" where
  "read_prop v key = (if v = JUndefined \<or> v = JNull then Inl TypeError else Inr (get_prop v key))"

text \<open>\<^verbatim>\<open>Object.keys(v)\<close> throws on \<^verbatim>\<open>undefined\<close> and \<^verbatim>\<open>null\<close>.\<close>

definition Object_keys :: "jsval \<Rightarrow> js_error + string list" where
  "Object_keys v = (if v = JUndefined \<or> v = JNull then Inl TypeError else Inr (own_keys v))"

text \<open>The values a \<^verbatim>\<open>for ... of\<close> loop visits; a value that is not iterable throws.\<close>

definition iterate :: "jsval \<Rightarrow> js_error + jsval list" where
  "iterate v =
     (case v of
        JArr xs \<Rightarrow> Inr xs
      | JStr s \<Rightarrow> Inr (map (\<lambda>c. JStr [c]) s)
      | _ \<Rightarrow> Inl TypeError)"

subsection \<open>JSON.stringify\<close>

definition hex_digit :: "nat \<Rightarrow> char" where
  "hex_digit n = ''0123456789abcdef'' ! n"

definition json_escape_char :: "char \<Rightarrow> string" where
  "json_escape_char c =
     (if c = CHR 0x22 then [CHR 0x5C, CHR 0x22]
      else if c = CHR 0x5C then [CHR 0x5C, CHR 0x5C]
      else if c = CHR 0x08 then [CHR 0x5C, CHR ''b'']
      else if c = CHR 0x0C then [CHR 0x5C, CHR ''f'']
      else if c = CHR 0x0A then [CHR 0x5C, CHR ''n'']
      else if c = CHR 0x0D then [CHR 0x5C, CHR ''r'']
      else if c = CHR 0x09 then [CHR 0x5C, CHR ''t'']
      else if (of_char c :: nat) < 32
        then [CHR 0x5C, CHR ''u'', CHR ''0'', CHR ''0'',
              hex_digit (of_char c div 16), hex_digit (of_char c mod 16)]
      else [c])"

definition json_quote :: "string \<Rightarrow> string" where
  "json_quote s = [CHR 0x22] @ concat (map json_escape_char s) @ [CHR 0x22]"

text \<open>
  \<^verbatim>\<open>JSON.stringify\<close> of a value that is not \<^verbatim>\<open>undefined\<close>: an \<^verbatim>\<open>undefined\<close> array
  element is written \<^verbatim>\<open>null\<close>, an \<^verbatim>\<open>undefined\<close> property is left out, and a number
  that is not finite is written \<^verbatim>\<open>null\<close>.
\<close>

fun json_text :: "jsval \<Rightarrow> string" where
  "json_text JUndefined = ''null''"
| "json_text JNull = ''null''"
| "json_text (JBool b) = (if b then ''true'' else ''false'')"
| "json_text (JNum x) =
     (case x of NaN \<Rightarrow> ''null'' | Infinity negative \<Rightarrow> ''null'' | _ \<Rightarrow> Number_toString x)"
| "json_text (JStr s) = json_quote s"
| "json_text (JArr xs) = ''['' @ join '','' (map json_text xs) @ '']''"
| "json_text (JObj kvs) =
     ''{'' @ join '','' (map (\<lambda>(k, v). json_quote k @ '':'' @ json_text v)
                          (filter (\<lambda>(k, v). v \<noteq> JUndefined) kvs)) @ ''}''"

text \<open>\<^verbatim>\<open>JSON.stringify(v)\<close>; \<open>None\<close> is the result \<^verbatim>\<open>undefined\<close>.\<close>

definition JSON_stringify :: "jsval \<Rightarrow> string option" where
  "JSON_stringify v = (if v = JUndefined then None else Some (json_text v))"

text \<open>A string or \<^verbatim>\<open>undefined\<close> inside a template literal.\<close>

definition opt_to_string :: "string option \<Rightarrow> string" where
  "opt_to_string s = (case s of None \<Rightarrow> ''undefined'' | Some t \<Rightarrow> t)"

section \<open>The escape clients\<close>

text \<open>
  \<^verbatim>\<open>escape-clients.js\<close>: a base class holding one \<^verbatim>\<open>value\<close>, and seven subclasses that
  add nothing to it. An interpolated argument of the template is a plain value or an
  instance of one of these classes.
\<close>

datatype escape_class =
    EscapeBase
  | EscapeAndDictionary
  | EscapeArrayParameters
  | EscapeDictionary
  | EscapeIdentifier
  | EscapeParameter
  | EscapeKeysAndValues
  | EscapeKeysAndValuesWithExpiresIn

datatype template_arg = Raw jsval | Escape escape_class jsval

section \<open>parseTaggedTemplate\<close>

text \<open>
  Modelled from the spec: \<^verbatim>\<open>pg.escapeIdentifier\<close> belongs to the database driver and is
  not among the sources. It wraps the identifier in double quotes and doubles every
  double quote inside it.
\<close>

definition escapeIdentifier :: "string \<Rightarrow> string" where
  "escapeIdentifier str =
     [CHR 0x22] @ concat (map (\<lambda>c. if c = CHR 0x22 then [CHR 0x22, CHR 0x22] else [c]) str)
       @ [CHR 0x22]"

text \<open>The driver calls a string method on its argument: anything but a string throws.\<close>

definition escapeIdentifier_value :: "jsval \<Rightarrow> js_error + string" where
  "escapeIdentifier_value v = (case v of JStr s \<Rightarrow> Inr (escapeIdentifier s) | _ \<Rightarrow> Inl TypeError)"

text \<open>\<^verbatim>\<open>xs.map(f)\<close> where \<open>f\<close> may throw: the first exception ends the map.\<close>

fun map_throw :: "('a \<Rightarrow> js_error + 'b) \<Rightarrow> 'a list \<Rightarrow> js_error + 'b list" where
  "map_throw f [] = Inr []"
| "map_throw f (x # xs) =
     (case f x of
        Inl e \<Rightarrow> Inl e
      | Inr y \<Rightarrow> (case map_throw f xs of Inl e \<Rightarrow> Inl e | Inr ys \<Rightarrow> Inr (y # ys)))"

text \<open>
  Each branch of the parser takes the \<^verbatim>\<open>values\<close> array as it stands and returns the
  text that replaces the argument together with the new \<^verbatim>\<open>values\<close> array.

  The \<^verbatim>\<open>EscapeAndDictionary\<close> branch: a \<^verbatim>\<open>for ... in\<close> loop over the dictionary that
  skips the keys whose value is \<^verbatim>\<open>undefined\<close>.
\<close>

fun andDictionary_loop ::
  "jsval \<Rightarrow> string list \<Rightarrow> jsval list \<Rightarrow> string list \<Rightarrow> string list \<times> jsval list" where
  "andDictionary_loop dictionary [] vals dictStrings = (dictStrings, vals)"
| "andDictionary_loop dictionary (key # keys) vals dictStrings =
     (let v = get_prop dictionary key in
      if v = JUndefined then andDictionary_loop dictionary keys vals dictStrings
      else
        let vals' = vals @ [v] in
        andDictionary_loop dictionary keys vals'
          (dictStrings @
            ['' AND '' @ escapeIdentifier key @ ''=$'' @ nat_to_string (length vals')]))"

definition parseAndDictionary :: "jsval \<Rightarrow> jsval list \<Rightarrow> string \<times> jsval list" where
  "parseAndDictionary dictionary vals =
     (case andDictionary_loop dictionary (own_keys dictionary) vals [] of
        (dictStrings, vals') \<Rightarrow> (join [] dictStrings, vals'))"

text \<open>The \<^verbatim>\<open>EscapeArrayParameters\<close> branch: a \<^verbatim>\<open>for ... of\<close> loop over the array.\<close>

fun arrayParameters_loop ::
  "jsval list \<Rightarrow> jsval list \<Rightarrow> string list \<Rightarrow> string list \<times> jsval list" where
  "arrayParameters_loop [] vals paramIndexes = (paramIndexes, vals)"
| "arrayParameters_loop (v # arr) vals paramIndexes =
     (let vals' = vals @ [v] in
      arrayParameters_loop arr vals' (paramIndexes @ [''$'' @ nat_to_string (length vals')]))"

definition parseArrayParameters :: "jsval \<Rightarrow> jsval list \<Rightarrow> js_error + (string \<times> jsval list)" where
  "parseArrayParameters arr vals =
     (case iterate arr of
        Inl e \<Rightarrow> Inl e
      | Inr xs \<Rightarrow>
          (case arrayParameters_loop xs vals [] of
             (paramIndexes, vals') \<Rightarrow> Inr (''ARRAY['' @ join '', '' paramIndexes @ '']'', vals')))"

text \<open>The \<^verbatim>\<open>EscapeDictionary\<close> branch: the same loop with no test on the value.\<close>

fun dictionary_loop ::
  "jsval \<Rightarrow> string list \<Rightarrow> jsval list \<Rightarrow> string list \<Rightarrow> string list \<times> jsval list" where
  "dictionary_loop dictionary [] vals dictStrings = (dictStrings, vals)"
| "dictionary_loop dictionary (key # keys) vals dictStrings =
     (let vals' = vals @ [get_prop dictionary key] in
      dictionary_loop dictionary keys vals'
        (dictStrings @ [escapeIdentifier key @ ''=$'' @ nat_to_string (length vals')]))"

definition parseDictionary :: "jsval \<Rightarrow> jsval list \<Rightarrow> string \<times> jsval list" where
  "parseDictionary dictionary vals =
     (case dictionary_loop dictionary (own_keys dictionary) vals [] of
        (dictStrings, vals') \<Rightarrow> (join '', '' dictStrings, vals'))"

text \<open>The \<^verbatim>\<open>EscapeIdentifier\<close> branch.\<close>

definition parseIdentifier :: "jsval \<Rightarrow> js_error + string" where
  "parseIdentifier v =
     (let argValue = (case v of JArr xs \<Rightarrow> xs | _ \<Rightarrow> [v]) in
      case map_throw escapeIdentifier_value argValue of
        Inl e \<Rightarrow> Inl e
      | Inr ids \<Rightarrow> Inr (join '', '' ids))"

text \<open>
  The \<^verbatim>\<open>EscapeKeysAndValues\<close> branch. The keys are those of the first row; the
  placeholder of column \<open>i\<close> in a row is numbered from the number of rows rendered so
  far and the number of keys.
\<close>

fun keysAndValues_loop ::
  "string list \<Rightarrow> jsval list \<Rightarrow> jsval list \<Rightarrow> string list list
    \<Rightarrow> js_error + (jsval list \<times> string list list)" where
  "keysAndValues_loop keys [] rowValues paramIndexGroups = Inr (rowValues, paramIndexGroups)"
| "keysAndValues_loop keys (argValue # argValues) rowValues paramIndexGroups =
     (case map_throw (read_prop argValue) keys of
        Inl e \<Rightarrow> Inl e
      | Inr vs \<Rightarrow>
          keysAndValues_loop keys argValues (rowValues @ vs)
            (paramIndexGroups @
              [map (\<lambda>i. ''$'' @ nat_to_string (length paramIndexGroups * length keys + i + 1))
                 [0..<length keys]]))"

definition parseKeysAndValues :: "jsval \<Rightarrow> jsval list \<Rightarrow> js_error + (string \<times> jsval list)" where
  "parseKeysAndValues v vals =
     (let argValues = (case v of JArr xs \<Rightarrow> xs | _ \<Rightarrow> [v]) in
      case Object_keys (case argValues of [] \<Rightarrow> JUndefined | first # _ \<Rightarrow> first) of
        Inl e \<Rightarrow> Inl e
      | Inr keys \<Rightarrow>
          (let rowKeys = map escapeIdentifier keys in
           case keysAndValues_loop keys argValues [] [] of
             Inl e \<Rightarrow> Inl e
           | Inr (rowValues, paramIndexGroups) \<Rightarrow>
               Inr (''('' @ join '','' rowKeys @ '') VALUES '' @
                      join '','' (map (\<lambda>g. ''('' @ join '','' g @ '')'') paramIndexGroups),
                    vals @ rowValues)))"

text \<open>The \<^verbatim>\<open>EscapeKeysAndValuesWithExpiresIn\<close> branch, on a spread copy of the value.\<close>

definition parseKeysAndValuesWithExpiresIn :: "jsval \<Rightarrow> jsval list \<Rightarrow> string \<times> jsval list" where
  "parseKeysAndValuesWithExpiresIn v vals =
     (let spread = JObj (entries v);
          expiresIn = get_prop spread ''expiresIn'';
          argValue =
            (if truthy expiresIn
             then JObj (filter (\<lambda>(k, x). k \<notin> {''expiresIn'', ''expiresAt'', ''expiresAtEpoch''})
                          (entries spread))
             else spread);
          keys = own_keys argValue;
          rowKeys = map escapeIdentifier keys;
          rowValues = map (get_prop argValue) keys;
          index = length keys;
          paramIndexes = map (\<lambda>i. ''$'' @ nat_to_string (i + 1)) [0..<length keys];
          rowKeys' =
            (if truthy expiresIn
             then rowKeys @ [escapeIdentifier ''expiresAt'', escapeIdentifier ''expiresAtEpoch'']
             else rowKeys);
          rowValues' = (if truthy expiresIn then rowValues @ [expiresIn, expiresIn] else rowValues);
          paramIndexes' =
            (if truthy expiresIn
             then paramIndexes @
               [''now() + $'' @ nat_to_string (index + 1) @ ''::interval SECOND'',
                ''FLOOR(EXTRACT(EPOCH FROM NOW())) + $'' @ nat_to_string (index + 2)]
             else paramIndexes)
      in (''('' @ join '', '' rowKeys' @ '') VALUES ('' @ join '', '' paramIndexes' @ '')'',
          vals @ rowValues'))"

text \<open>
  The body of the \<^verbatim>\<open>forEach\<close> callback after the string segment is appended: the text
  the argument adds and the new \<^verbatim>\<open>values\<close>. An \<^verbatim>\<open>undefined\<close> argument and an escape
  client whose value is \<^verbatim>\<open>undefined\<close> add nothing.
\<close>

definition parse_arg :: "template_arg \<Rightarrow> jsval list \<Rightarrow> js_error + (string \<times> jsval list)" where
  "parse_arg arg vals =
     (case arg of
        Raw v \<Rightarrow>
          (if v = JUndefined then Inr ([], vals)
           else if typeof_object v then Inr (json_text v, vals)
           else (case js_to_string v of Inl e \<Rightarrow> Inl e | Inr s \<Rightarrow> Inr (s, vals)))
      | Escape cls v \<Rightarrow>
          (if v = JUndefined then Inr ([], vals)
           else case cls of
             EscapeAndDictionary \<Rightarrow> Inr (parseAndDictionary v vals)
           | EscapeArrayParameters \<Rightarrow> parseArrayParameters v vals
           | EscapeDictionary \<Rightarrow> Inr (parseDictionary v vals)
           | EscapeIdentifier \<Rightarrow>
               (case parseIdentifier v of Inl e \<Rightarrow> Inl e | Inr s \<Rightarrow> Inr (s, vals))
           | EscapeParameter \<Rightarrow>
               (let vals' = vals @ [v] in Inr (''$'' @ nat_to_string (length vals'), vals'))
           | EscapeKeysAndValues \<Rightarrow> parseKeysAndValues v vals
           | EscapeKeysAndValuesWithExpiresIn \<Rightarrow> Inr (parseKeysAndValuesWithExpiresIn v vals)
           | EscapeBase \<Rightarrow> Inr (json_text (JObj [(''value'', v)]), vals)))"

text \<open>
  \<^verbatim>\<open>strings.forEach\<close>: the argument of a segment is the one at the segment's index, and
  a segment past the last argument has none.
\<close>

fun forEach_strings ::
  "string list \<Rightarrow> template_arg list \<Rightarrow> string \<Rightarrow> jsval list \<Rightarrow> js_error + (string \<times> jsval list)"
  where
  "forEach_strings [] args txt vals = Inr (txt, vals)"
| "forEach_strings (stringSegment # strings) [] txt vals =
     forEach_strings strings [] (txt @ stringSegment) vals"
| "forEach_strings (stringSegment # strings) (arg # args) txt vals =
     (case parse_arg arg vals of
        Inl e \<Rightarrow> Inl e
      | Inr (piece, vals') \<Rightarrow> forEach_strings strings args (txt @ stringSegment @ piece) vals')"

text \<open>
  The result. Its fields \<^verbatim>\<open>text\<close> and \<^verbatim>\<open>values\<close> are named \<open>sql_text\<close> and
  \<open>sql_values\<close> here; \<open>None\<close> is the value \<^verbatim>\<open>undefined\<close>.
\<close>

record QueryConfig =
  sql_text :: string
  sql_values :: "jsval list option"

definition parseTaggedTemplate :: "string list \<Rightarrow> template_arg list \<Rightarrow> js_error + QueryConfig" where
  "parseTaggedTemplate strings args =
     (case forEach_strings strings args [] [] of
        Inl e \<Rightarrow> Inl e
      | Inr (txt, vals) \<Rightarrow> Inr \<lparr>sql_text = txt, sql_values = (if vals \<noteq> [] then Some vals else None)\<rparr>)"

section \<open>Regular expressions\<close>

text \<open>
  The expressions of the classifier are sequences of three kinds of item: a literal
  string, the lazy \<^verbatim>\<open>.+?\<close> (capturing when written in parentheses), and a capturing
  choice between literal strings. \<^verbatim>\<open>.\<close> matches any character but a line terminator.
\<close>

datatype re_item = Lit string | Lazy bool | Alt "string list"

definition line_terminator :: "char \<Rightarrow> bool" where
  "line_terminator c = (c = CHR 0x0A \<or> c = CHR 0x0D)"

fun first_some :: "'a option list \<Rightarrow> 'a option" where
  "first_some [] = None"
| "first_some (x # xs) = (case x of None \<Rightarrow> first_some xs | Some y \<Rightarrow> Some y)"

text \<open>
  A backtracking match of the items at the start of the string, which gives the captured
  groups in order. A lazy item takes one character, then one more each time the rest of
  the expression fails; a choice tries its alternatives in order. \<open>anchored\<close> is the
  \<^verbatim>\<open>$\<close> at the end of the expression.
\<close>

fun re_match :: "bool \<Rightarrow> re_item list \<Rightarrow> string \<Rightarrow> string list option" where
  "re_match anchored [] s = (if anchored \<and> s \<noteq> [] then None else Some [])"
| "re_match anchored (Lit l # items) s =
     (if take (length l) s = l then re_match anchored items (drop (length l) s) else None)"
| "re_match anchored (Lazy capture # items) s =
     first_some
       (map (\<lambda>k. if list_ex line_terminator (take k s) then None
                 else map_option (\<lambda>groups. if capture then take k s # groups else groups)
                        (re_match anchored items (drop k s)))
          [1..<Suc (length s)])"
| "re_match anchored (Alt alts # items) s =
     first_some
       (map (\<lambda>a. if take (length a) s = a
                 then map_option (\<lambda>groups. a # groups) (re_match anchored items (drop (length a) s))
                 else None)
          alts)"

text \<open>\<^verbatim>\<open>/^...$/.exec(s)\<close>: the groups of the match, \<open>None\<close> for \<^verbatim>\<open>null\<close>.\<close>

definition re_exec :: "re_item list \<Rightarrow> string \<Rightarrow> string list option" where
  "re_exec items s = re_match True items s"

text \<open>An expression with no anchor is tried at each position of the string in turn.\<close>

definition re_search :: "re_item list \<Rightarrow> string \<Rightarrow> string list option" where
  "re_search items s = first_some (map (\<lambda>i. re_match False items (drop i s)) [0..<Suc (length s)])"

section \<open>generateDbErrorMessage\<close>

text \<open>\<^verbatim>\<open>s.split(c)\<close> for a separator of one character.\<close>

fun split_on :: "char \<Rightarrow> string \<Rightarrow> string list" where
  "split_on sep [] = [[]]"
| "split_on sep (c # cs) =
     (if c = sep then [] # split_on sep cs
      else (case split_on sep cs of [] \<Rightarrow> [[c]] | t # ts \<Rightarrow> (c # t) # ts))"

text \<open>\<open>None\<close> is \<^verbatim>\<open>undefined\<close>, the first element of an empty array.\<close>

definition getQueryMethod :: "string \<Rightarrow> string option" where
  "getQueryMethod queryString =
     (case filter (\<lambda>s. length s > 1) (split_on CHR '' '' queryString) of
        [] \<Rightarrow> None
      | s # _ \<Rightarrow> Some s)"

text \<open>
  The error as the classifier reads it: the driver's error with the \<^verbatim>\<open>query\<close> and
  \<^verbatim>\<open>parameters\<close> the client adds. \<open>None\<close> is an absent field.
\<close>

record pg_error =
  error_message :: string
  error_detail :: "string option"
  error_table :: "string option"
  error_query :: "string option"
  error_parameters :: "jsval list option"
  error_args :: jsval

text \<open>The result; its field \<^verbatim>\<open>message\<close> is named \<open>result_message\<close> here.\<close>

record GenerateDbErrorMessageResults =
  result_message :: string
  isTimeoutError :: bool
  isTooManyConnectionsError :: bool

definition tooManyClientsRegex :: "re_item list" where
  "tooManyClientsRegex = [Lit ''sorry, too many clients already'']"

definition queryTimeoutRegex :: "re_item list" where
  "queryTimeoutRegex = [Lit ''Query read timeout'']"

definition deleteFkRegex :: "re_item list" where
  \<open>deleteFkRegex =
     [Lit ''update or delete on table "'', Lazy True,
      Lit ''" violates foreign key constraint "'', Lazy False,
      Lit ''" on table "'', Lazy True, Lit ''"'']\<close>

definition insertFkRegex :: "re_item list" where
  \<open>insertFkRegex =
     [Lit ''insert or update on table "'', Lazy True,
      Lit ''" violates foreign key constraint "'', Lazy True, Lit ''"'']\<close>

definition duplicateKeyRegex :: "re_item list" where
  \<open>duplicateKeyRegex =
     [Lit ''duplicate key value violates unique constraint "'', Lazy True, Lit ''"'']\<close>

definition tooLongRegex :: "re_item list" where
  "tooLongRegex = [Lit ''value too long for type '', Lazy True]"

definition analyzeQueryRegex :: "re_item list" where
  \<open>analyzeQueryRegex = [Alt [''UPDATE'', ''INSERT''], Lazy False, Lit ''"'', Lazy True, Lit ''"'']\<close>

definition missingRelationRegex :: "re_item list" where
  \<open>missingRelationRegex = [Lit ''relation "'', Lazy True, Lit ''" does not exist'']\<close>

definition nullValuesRegex :: "re_item list" where
  \<open>nullValuesRegex =
     [Lit ''null value in column "'', Lazy True, Lit ''" violates not-null constraint'']\<close>

definition undefinedValuesRegex :: "re_item list" where
  "undefinedValuesRegex = [Lit ''UNDEFINED_VALUE: Undefined values are not allowed'']"

text \<open>\<^verbatim>\<open>s.replace(/\n/g, '')\<close>.\<close>

definition strip_newlines :: "string \<Rightarrow> string" where
  "strip_newlines s = filter (\<lambda>c. c \<noteq> CHR 0x0A) s"

text \<open>\<^verbatim>\<open>xs[0]\<close>: reading an index of \<^verbatim>\<open>undefined\<close> throws, and past the end it is \<^verbatim>\<open>undefined\<close>.\<close>

definition first_parameter :: "jsval list option \<Rightarrow> js_error + jsval" where
  "first_parameter errorParameters =
     (case errorParameters of
        None \<Rightarrow> Inl TypeError
      | Some [] \<Rightarrow> Inr JUndefined
      | Some (p # _) \<Rightarrow> Inr p)"

text \<open>
  The result object before any rule has matched, which is also what the function returns
  when none does.
\<close>

definition default_results :: "pg_error \<Rightarrow> GenerateDbErrorMessageResults" where
  "default_results error =
     \<lparr>result_message =
        ''Unrecognized Database Error: '' @ error_message error @ ''. Detail: '' @
          opt_to_string (error_detail error),
      isTimeoutError = False,
      isTooManyConnectionsError = False\<rparr>"

text \<open>
  The rules in the order of the source. A captured group is read by its position in the
  list of groups, which starts at 0 where the array of \<^verbatim>\<open>exec\<close> starts at 1.
\<close>

definition generateDbErrorMessage :: "pg_error \<Rightarrow> js_error + GenerateDbErrorMessageResults" where
  \<open>generateDbErrorMessage error =
     (let errorDetail = error_detail error;
          errorMessage = error_message error;
          errorParameters = error_parameters error;
          errorQuery = (case error_query error of None \<Rightarrow> [] | Some q \<Rightarrow> q);
          errorTable = (case error_table error of None \<Rightarrow> [] | Some t \<Rightarrow> t);
          results = default_results error
      in
      if re_exec tooManyClientsRegex errorMessage \<noteq> None then
        Inr (results\<lparr>result_message :=
               ''Too many database connections, try again later. Running query: '' @
                 strip_newlines errorQuery,
             isTooManyConnectionsError := True\<rparr>)
      else if re_exec queryTimeoutRegex errorMessage \<noteq> None then
        Inr (results\<lparr>result_message :=
               ''Query timed out. Running query: '' @ strip_newlines errorQuery,
             isTimeoutError := True\<rparr>)
      else case re_exec deleteFkRegex errorMessage of
        Some deleteFkResult \<Rightarrow>
          (let touchedTable = deleteFkResult ! 0;
               queryMethod = getQueryMethod errorQuery
           in Inr (results\<lparr>result_message :=
                ''Could not '' @ opt_to_string queryMethod @ '' item from "'' @ touchedTable @
                  ''" table. Detail: '' @ opt_to_string errorDetail\<rparr>))
      | None \<Rightarrow>
      (case re_exec insertFkRegex errorMessage of
        Some insertFkResult \<Rightarrow>
          (let touchedTable = insertFkResult ! 0 in
           case first_parameter errorParameters of
             Inl e \<Rightarrow> Inl e
           | Inr itemId \<Rightarrow>
               (let queryMethod = getQueryMethod errorQuery
                in case js_to_string itemId of
                     Inl e \<Rightarrow> Inl e
                   | Inr itemText \<Rightarrow>
                       Inr (results\<lparr>result_message :=
                         ''Could not '' @ opt_to_string queryMethod @ '' item "'' @
                           itemText @ ''" into "'' @ touchedTable @
                           ''" table. Detail: '' @ opt_to_string errorDetail\<rparr>)))
      | None \<Rightarrow>
      (case re_exec duplicateKeyRegex errorMessage of
        Some duplicateKeyResult \<Rightarrow>
          (let touchedTable = errorTable in
           case first_parameter errorParameters of
             Inl e \<Rightarrow> Inl e
           | Inr itemId \<Rightarrow>
               (let itemId' = (if typeof_object itemId then JStr (json_text itemId) else itemId);
                    queryMethod = getQueryMethod errorQuery
                in case js_to_string itemId' of
                     Inl e \<Rightarrow> Inl e
                   | Inr itemText \<Rightarrow>
                       Inr (results\<lparr>result_message :=
                         ''Could not '' @ opt_to_string queryMethod @ '' item "'' @
                           itemText @ ''" into "'' @ touchedTable @
                           ''" table. Detail: '' @ opt_to_string errorDetail\<rparr>)))
      | None \<Rightarrow>
      (case re_exec tooLongRegex errorMessage of
        Some tooLongResult \<Rightarrow>
          (case re_search analyzeQueryRegex errorQuery of
             None \<Rightarrow> Inr results
           | Some analyzeQueryResult \<Rightarrow>
               (let queryMethod = analyzeQueryResult ! 0;
                    touchedTable = analyzeQueryResult ! 1;
                    dataType = tooLongResult ! 0
                in Inr (results\<lparr>result_message :=
                     ''Could not '' @ queryMethod @ '' item into "'' @ touchedTable @
                       ''" table. A value is too long for db type "'' @ dataType @ ''".''\<rparr>)))
      | None \<Rightarrow>
      (case re_exec missingRelationRegex errorMessage of
        Some missingRelationResult \<Rightarrow>
          (let touchedTable = missingRelationResult ! 0;
               queryMethod = getQueryMethod errorQuery
           in Inr (results\<lparr>result_message :=
                ''Could not perform '' @ opt_to_string queryMethod @
                  '' operation on missing table "'' @ touchedTable @ ''".''\<rparr>))
      | None \<Rightarrow>
      (case re_exec nullValuesRegex errorMessage of
        Some nullValuesResult \<Rightarrow>
          (let badColumn = nullValuesResult ! 0;
               queryMethod = getQueryMethod errorQuery
           in Inr (results\<lparr>result_message :=
                ''Could not '' @ opt_to_string queryMethod @ '' item in "'' @ errorTable @
                  ''" table. Unexpected null value for "'' @ badColumn @ ''" column.''\<rparr>))
      | None \<Rightarrow>
      (if re_exec undefinedValuesRegex errorMessage \<noteq> None then
         Inr (results\<lparr>result_message :=
                ''Unexpected undefined value applying data to database. '' @
                  ''Args: '' @ opt_to_string (JSON_stringify (error_args error)) @ ''.''\<rparr>)
       else Inr results)))))))\<close>

section \<open>DBError\<close>

text \<open>
  What the constructor of \<^verbatim>\<open>DBError\<close> is given: a \<^verbatim>\<open>DBError\<close>, a string, or another
  error object, which may or may not be an instance of the driver's \<^verbatim>\<open>DatabaseError\<close>.
  A string has no \<^verbatim>\<open>message\<close>, so it is never classified.
\<close>

record thrown_error =
  isDatabaseError :: bool
  error_fields :: pg_error

record DBError =
  db_message :: string
  statusCode :: nat
  originalError :: thrown_error

datatype constructor_arg = OfDBError DBError | OfString string | OfError thrown_error

text \<open>\<^verbatim>\<open>s.includes(t)\<close>.\<close>

fun string_includes :: "string \<Rightarrow> string \<Rightarrow> bool" where
  "string_includes [] t = (t = [])"
| "string_includes (c # cs) t = (take (length t) (c # cs) = t \<or> string_includes cs t)"

text \<open>\<^verbatim>\<open>new Error(s)\<close>: an error with a message and none of the driver's fields.\<close>

definition new_Error :: "string \<Rightarrow> thrown_error" where
  "new_Error s =
     \<lparr>isDatabaseError = False,
      error_fields = \<lparr>error_message = s, error_detail = None, error_table = None,
                      error_query = None, error_parameters = None, error_args = JUndefined\<rparr>\<rparr>"

definition new_DBError :: "constructor_arg \<Rightarrow> js_error + DBError" where
  "new_DBError arg =
     (case arg of
        OfDBError original \<Rightarrow>
          Inr \<lparr>db_message = db_message original, statusCode = statusCode original,
               originalError = originalError original\<rparr>
      | OfString s \<Rightarrow>
          Inr \<lparr>db_message = s, statusCode = 400, originalError = new_Error s\<rparr>
      | OfError original \<Rightarrow>
          (let couldBeTimeoutError =
                 string_includes (error_message (error_fields original)) ''Query read timeout'';
               couldBeUndefinedError =
                 string_includes (error_message (error_fields original)) ''UNDEFINED_VALUE''
           in
           if \<not> isDatabaseError original \<and> \<not> couldBeTimeoutError \<and> \<not> couldBeUndefinedError
           then Inr \<lparr>db_message = error_message (error_fields original), statusCode = 400,
                     originalError = original\<rparr>
           else
             (case generateDbErrorMessage (error_fields original) of
                Inl e \<Rightarrow> Inl e
              | Inr r \<Rightarrow>
                  Inr \<lparr>db_message = result_message r,
                       statusCode = (if isTimeoutError r \<or> isTooManyConnectionsError r
                                     then 429 else 400),
                       originalError = original\<rparr>)))"

section \<open>Notions used in the properties\<close>

text \<open>
  The literal text of a primitive interpolation: a string is its own characters, a
  boolean is \<^verbatim>\<open>true\<close> or \<^verbatim>\<open>false\<close>, \<^verbatim>\<open>null\<close> is \<^verbatim>\<open>null\<close>, and a number is printed as the
  language prints it. No other value is a primitive interpolation.
\<close>

fun primitive_text :: "jsval \<Rightarrow> string option" where
  "primitive_text (JStr s) = Some s"
| "primitive_text (JBool True) = Some ''true''"
| "primitive_text (JBool False) = Some ''false''"
| "primitive_text JNull = Some ''null''"
| "primitive_text (JNum x) = Some (Number_toString x)"
| "primitive_text v = None"

section \<open>Decimal numerals\<close>

text \<open>The decimal form of a number is computed on numerals only.\<close>

lemma nat_to_string_0 [simp]: "nat_to_string 0 = ''0''"
  by (simp add: nat_to_string.simps)

lemma nat_to_string_Suc_0 [simp]: "nat_to_string (Suc 0) = ''1''"
  by (simp add: nat_to_string.simps)

lemma nat_to_string_numeral [simp]:
  "nat_to_string (numeral k) =
     (if (numeral k :: nat) < 10 then [''0123456789'' ! numeral k]
      else nat_to_string (numeral k div 10) @ [''0123456789'' ! (numeral k mod 10)])"
  by (rule nat_to_string.simps)

section \<open>Properties of getQueryMethod\<close>

text \<open>
  C3. The method is said to be the first token of the query after splitting on
  whitespace and dropping the tokens of one character or none, so that a query that
  starts with a newline attached to its verb gives the bare verb. \<^verbatim>\<open>getQueryMethod\<close>
  splits on the space character only: on the query that is a newline followed by
  \<^verbatim>\<open>SELECT 1\<close> it returns the verb with the newline still in front of it.
\<close>

theorem getQueryMethod_keeps_leading_newline:
  "getQueryMethod (CHR 0x0A # ''SELECT 1'') = Some (CHR 0x0A # ''SELECT'')"
  by (simp add: getQueryMethod_def)

section \<open>Properties of parseTaggedTemplate\<close>

text \<open>
  C4. Whenever the parser returns, the \<^verbatim>\<open>values\<close> of its result are the array the loop
  built when that array is not empty, and \<^verbatim>\<open>undefined\<close> when it is empty: the result
  never holds an empty array.
\<close>

theorem parseTaggedTemplate_values_absent_or_nonempty:
  assumes "parseTaggedTemplate strings args = Inr config"
  shows "sql_values config \<noteq> Some [] \<and>
    (\<exists>txt vals. forEach_strings strings args [] [] = Inr (txt, vals) \<and>
       sql_text config = txt \<and>
       sql_values config = (if vals = [] then None else Some vals))"
proof (cases "forEach_strings strings args [] []")
  case (Inl e)
  with assms show ?thesis by (simp add: parseTaggedTemplate_def)
next
  case (Inr r)
  obtain t vs where r: "r = (t, vs)" by (cases r)
  from assms Inr r
  have unfolded: "config = \<lparr>sql_text = t, sql_values = (if vs \<noteq> [] then Some vs else None)\<rparr>"
    by (simp add: parseTaggedTemplate_def)
  show ?thesis unfolding unfolded using Inr r by simp
qed

theorem parseTaggedTemplate_values_absent_or_nonempty_witness:
  "parseTaggedTemplate [''a = '', ''''] [Escape EscapeParameter (JNum (Finite False 7 1))]
     = Inr \<lparr>sql_text = ''a = $1'', sql_values = Some [JNum (Finite False 7 1)]\<rparr>
   \<and> sql_values \<lparr>sql_text = ''a = $1'', sql_values = Some [JNum (Finite False 7 1)]\<rparr> \<noteq> Some []
   \<and> (\<exists>txt vals.
         forEach_strings [''a = '', ''''] [Escape EscapeParameter (JNum (Finite False 7 1))] [] [] = Inr (txt, vals) \<and>
         sql_text \<lparr>sql_text = ''a = $1'', sql_values = Some [JNum (Finite False 7 1)]\<rparr> = txt \<and>
         sql_values \<lparr>sql_text = ''a = $1'', sql_values = Some [JNum (Finite False 7 1)]\<rparr>
           = (if vals = [] then None else Some vals))"
proof -
  have run: "parseTaggedTemplate [''a = '', ''''] [Escape EscapeParameter (JNum (Finite False 7 1))]
     = Inr \<lparr>sql_text = ''a = $1'', sql_values = Some [JNum (Finite False 7 1)]\<rparr>"
    by (simp add: parseTaggedTemplate_def parse_arg_def)
  show ?thesis
    using parseTaggedTemplate_values_absent_or_nonempty [OF run] run by simp
qed

text \<open>
  C1. Every placeholder written into the text is said to be the index of the value just
  pushed, whatever the mix of interpolations. The \<^verbatim>\<open>EscapeKeysAndValues\<close> branch numbers
  its placeholders from 1 whatever \<^verbatim>\<open>values\<close> already holds: after one parameter, the
  value of the row is the second entry of \<^verbatim>\<open>values\<close> and its placeholder is
  \<^verbatim>\<open>$1\<close> again.
\<close>

theorem keysAndValues_after_parameter_restarts_numbering:
  \<open>parseTaggedTemplate [''WITH x AS (SELECT '', '') INSERT INTO t '', '''']
     [Escape EscapeParameter (JStr ''a''), Escape EscapeKeysAndValues (JObj [(''id'', JNum (Finite False 1 1))])]
   = Inr \<lparr>sql_text = ''WITH x AS (SELECT $1) INSERT INTO t ("id") VALUES ($1)'',
          sql_values = Some [JStr ''a'', JNum (Finite False 1 1)]\<rparr>\<close>
  by (simp add: parseTaggedTemplate_def parse_arg_def parseKeysAndValues_def Object_keys_def
      own_keys_def entries_def read_prop_def get_prop_def escapeIdentifier_def)

text \<open>
  C5. A primitive passed raw is appended to the text as its literal text and binds no
  parameter: the characters of a string, \<^verbatim>\<open>true\<close> or \<^verbatim>\<open>false\<close> for a boolean, \<^verbatim>\<open>null\<close>
  for \<^verbatim>\<open>null\<close>, and a number as the language prints it. The step leaves \<^verbatim>\<open>values\<close> as
  it was, at any place in a template, and a template with this one interpolation has no
  \<^verbatim>\<open>values\<close>.
\<close>

theorem raw_primitive_is_appended_literally:
  assumes "primitive_text v = Some literal"
  shows "parse_arg (Raw v) vals = Inr (literal, vals) \<and>
    forEach_strings (segment # strings) (Raw v # args) t vals
      = forEach_strings strings args (t @ segment @ literal) vals \<and>
    parseTaggedTemplate [before, after] [Raw v]
      = Inr \<lparr>sql_text = before @ literal @ after, sql_values = None\<rparr>"
proof -
  have step: "parse_arg (Raw v) vs = Inr (literal, vs)" for vs
    using assms
    by (cases v rule: primitive_text.cases)
       (simp_all add: parse_arg_def typeof_object_def)
  then show ?thesis by (simp add: parseTaggedTemplate_def)
qed

theorem raw_primitive_is_appended_literally_witness:
  "primitive_text (JNum (Finite False 5 1)) = Some ''5'' \<and>
   parseTaggedTemplate [''SELECT * FROM t WHERE id = '', ''''] [Raw (JNum (Finite False 5 1))]
     = Inr \<lparr>sql_text = ''SELECT * FROM t WHERE id = 5'', sql_values = None\<rparr> \<and>
   primitive_text (JStr ''abc'') = Some ''abc'' \<and>
   parse_arg (Raw (JStr ''abc'')) [JNull] = Inr (''abc'', [JNull]) \<and>
   primitive_text (JBool True) = Some ''true'' \<and>
   parse_arg (Raw (JBool True)) [] = Inr (''true'', []) \<and>
   primitive_text (JBool False) = Some ''false'' \<and>
   parse_arg (Raw (JBool False)) [] = Inr (''false'', []) \<and>
   primitive_text JNull = Some ''null'' \<and>
   parse_arg (Raw JNull) [] = Inr (''null'', []) \<and>
   primitive_text (JNum (Finite False 1 22)) = Some ''1e+21'' \<and>
   parse_arg (Raw (JNum (Finite False 1 22))) [] = Inr (''1e+21'', []) \<and>
   primitive_text (JNum (Finite True 125 2)) = Some ''-12.5'' \<and>
   parse_arg (Raw (JNum (Finite True 125 2))) [] = Inr (''-12.5'', []) \<and>
   primitive_text (JNum NaN) = Some ''NaN'' \<and>
   parse_arg (Raw (JNum NaN)) [] = Inr (''NaN'', [])"
  using
    raw_primitive_is_appended_literally
      [of "JNum (Finite False 5 1)" "''5''" "[]" _ _ _ _ "''SELECT * FROM t WHERE id = ''" "''''"]
    raw_primitive_is_appended_literally [of "JStr ''abc''" "''abc''" "[JNull]"]
    raw_primitive_is_appended_literally [of "JBool True" "''true''" "[]"]
    raw_primitive_is_appended_literally [of "JBool False" "''false''" "[]"]
    raw_primitive_is_appended_literally [of JNull "''null''" "[]"]
    raw_primitive_is_appended_literally [of "JNum (Finite False 1 22)" "''1e+21''" "[]"]
    raw_primitive_is_appended_literally [of "JNum (Finite True 125 2)" "''-12.5''" "[]"]
    raw_primitive_is_appended_literally [of "JNum NaN" "''NaN''" "[]"]
  by (simp add: Number_toString_def finite_toString_def)

subsection \<open>An escape client without a value\<close>

lemma forEach_strings_merge_segments:
  "forEach_strings (s1 # strings) args (t @ s0) vals
     = forEach_strings ((s0 @ s1) # strings) args t vals"
  by (cases args) (simp_all split: sum.splits prod.splits)

lemma parse_arg_undefined_value: "parse_arg (Escape cls JUndefined) vals = Inr ([], vals)"
  by (simp add: parse_arg_def)

lemma forEach_strings_skip_undefined:
  assumes "i < length args" "Suc i < length strings" "args ! i = Escape cls JUndefined"
  shows "forEach_strings strings args t vals
     = forEach_strings (take i strings @ [strings ! i @ strings ! Suc i] @ drop (i + 2) strings)
         (take i args @ drop (Suc i) args) t vals"
  using assms
proof (induction i arbitrary: strings args t vals)
  case 0
  then obtain s0 s1 ss where strings: "strings = s0 # s1 # ss"
    by (cases strings; cases "tl strings") auto
  from 0 obtain as where args: "args = Escape cls JUndefined # as"
    by (cases args) auto
  show ?case
    unfolding strings args
    by (simp add: parse_arg_undefined_value forEach_strings_merge_segments del: forEach_strings.simps(2,3))
       (simp add: parse_arg_undefined_value forEach_strings_merge_segments)
next
  case (Suc i)
  then obtain s ss where strings: "strings = s # ss" by (cases strings) auto
  from Suc obtain a as where args: "args = a # as" by (cases args) auto
  from Suc.prems have prems: "i < length as" "Suc i < length ss" "as ! i = Escape cls JUndefined"
    by (simp_all add: strings args)
  show ?case
  proof (cases "parse_arg a vals")
    case (Inl e)
    then show ?thesis by (simp add: strings args)
  next
    case (Inr r)
    obtain piece vals' where r: "r = (piece, vals')" by (cases r)
    show ?thesis
      using Suc.IH [OF prems, of "t @ s @ piece" vals'] Inr r
      by (simp add: strings args)
  qed
qed

text \<open>
  C6. An escape client of any class whose value is \<^verbatim>\<open>undefined\<close> adds nothing: the
  template gives the same result, or the same exception, as the template without that
  interpolation, where the two string segments around it are one segment.
\<close>

theorem undefined_escape_value_is_omitted:
  assumes "i < length args" and "Suc i < length strings"
    and "args ! i = Escape cls JUndefined"
  shows "parseTaggedTemplate strings args
     = parseTaggedTemplate
         (take i strings @ [strings ! i @ strings ! Suc i] @ drop (i + 2) strings)
         (take i args @ drop (Suc i) args)"
  unfolding parseTaggedTemplate_def
  by (simp only: forEach_strings_skip_undefined [OF assms])

theorem undefined_escape_value_is_omitted_witness:
  "0 < length [Escape EscapeKeysAndValues JUndefined, Escape EscapeParameter (JNum (Finite False 3 1))] \<and>
   Suc 0 < length [''INSERT INTO t '', '' RETURNING '', ''''] \<and>
   [Escape EscapeKeysAndValues JUndefined, Escape EscapeParameter (JNum (Finite False 3 1))] ! 0
     = Escape EscapeKeysAndValues JUndefined \<and>
   parseTaggedTemplate [''INSERT INTO t '', '' RETURNING '', '''']
     [Escape EscapeKeysAndValues JUndefined, Escape EscapeParameter (JNum (Finite False 3 1))]
   = parseTaggedTemplate [''INSERT INTO t  RETURNING '', ''''] [Escape EscapeParameter (JNum (Finite False 3 1))]"
  using undefined_escape_value_is_omitted
    [of 0 "[Escape EscapeKeysAndValues JUndefined, Escape EscapeParameter (JNum (Finite False 3 1))]"
        "[''INSERT INTO t '', '' RETURNING '', '''']" EscapeKeysAndValues]
  by simp

subsection \<open>An empty array of rows\<close>

lemma parse_arg_keysAndValues_empty_array:
  "parse_arg (Escape EscapeKeysAndValues (JArr [])) vals = Inl TypeError"
  by (simp add: parse_arg_def parseKeysAndValues_def Object_keys_def)

lemma forEach_strings_keysAndValues_empty_array:
  assumes "i < length args" "i < length strings"
    and "args ! i = Escape EscapeKeysAndValues (JArr [])"
  shows "forEach_strings strings args t vals = Inl TypeError"
  using assms
proof (induction i arbitrary: strings args t vals)
  case 0
  then obtain s ss as where "strings = s # ss" "args = Escape EscapeKeysAndValues (JArr []) # as"
    by (cases strings; cases args) auto
  then show ?case by (simp add: parse_arg_keysAndValues_empty_array)
next
  case (Suc i)
  then obtain s ss a as where shape: "strings = s # ss" "args = a # as"
    by (cases strings; cases args) auto
  with Suc.prems have prems: "i < length as" "i < length ss"
    "as ! i = Escape EscapeKeysAndValues (JArr [])"
    by simp_all
  show ?case
  proof (cases "parse_arg a vals")
    case (Inl e)
    then show ?thesis by (cases e) (simp add: shape)
  next
    case (Inr r)
    obtain piece vals' where "r = (piece, vals')" by (cases r)
    with Inr Suc.IH [OF prems, of "t @ s @ piece" vals'] show ?thesis
      by (simp add: shape)
  qed
qed

text \<open>
  C9. An \<^verbatim>\<open>EscapeKeysAndValues\<close> whose value is an empty array makes the parser throw:
  the keys are read from the first row, and there is none. No text is rendered and no
  result is returned, wherever in the template the interpolation stands.
\<close>

theorem keysAndValues_empty_array_throws:
  assumes "i < length args" and "i < length strings"
    and "args ! i = Escape EscapeKeysAndValues (JArr [])"
  shows "parseTaggedTemplate strings args = Inl TypeError"
  by (simp add: parseTaggedTemplate_def forEach_strings_keysAndValues_empty_array [OF assms])

theorem keysAndValues_empty_array_throws_witness:
  "0 < length [Escape EscapeKeysAndValues (JArr [])] \<and>
   0 < length [''INSERT INTO t '', ''''] \<and>
   [Escape EscapeKeysAndValues (JArr [])] ! 0 = Escape EscapeKeysAndValues (JArr []) \<and>
   parseTaggedTemplate [''INSERT INTO t '', ''''] [Escape EscapeKeysAndValues (JArr [])]
     = Inl TypeError"
  using keysAndValues_empty_array_throws
    [of 0 "[Escape EscapeKeysAndValues (JArr [])]" "[''INSERT INTO t '', '''']"]
  by simp

subsection \<open>Dictionaries with undefined values\<close>

lemma join_empty_separator: "join [] xs = concat xs"
  by (induction "[] :: string" xs rule: join.induct) simp_all

lemma get_prop_entry:
  assumes "distinct (own_keys d)" and "(k, v) \<in> set (entries d)"
  shows "get_prop d k = v"
  using assms by (simp add: get_prop_def own_keys_def)

lemma dictionary_loop_entries:
  assumes "distinct (own_keys d)" and "set rest \<subseteq> set (entries d)"
  shows "dictionary_loop d (map fst rest) vals dictStrings
     = (dictStrings @
          map (\<lambda>(n, k, v). escapeIdentifier k @ ''=$'' @ nat_to_string n)
            (enumerate (Suc (length vals)) rest),
        vals @ map snd rest)"
  using assms(2)
proof (induction rest arbitrary: vals dictStrings)
  case Nil
  show ?case by simp
next
  case (Cons entry rest)
  obtain k v where entry: "entry = (k, v)" by (cases entry)
  with Cons.prems have "get_prop d k = v"
    by (intro get_prop_entry [OF assms(1)]) simp
  moreover from Cons.prems have "set rest \<subseteq> set (entries d)" by simp
  ultimately show ?case
    by (simp add: entry Cons.IH)
qed

lemma andDictionary_loop_entries:
  assumes "distinct (own_keys d)" and "set rest \<subseteq> set (entries d)"
  shows "andDictionary_loop d (map fst rest) vals dictStrings
     = (dictStrings @
          map (\<lambda>(n, k, v). '' AND '' @ escapeIdentifier k @ ''=$'' @ nat_to_string n)
            (enumerate (Suc (length vals)) (filter (\<lambda>(k, v). v \<noteq> JUndefined) rest)),
        vals @ map snd (filter (\<lambda>(k, v). v \<noteq> JUndefined) rest))"
  using assms(2)
proof (induction rest arbitrary: vals dictStrings)
  case Nil
  show ?case by simp
next
  case (Cons entry rest)
  obtain k v where entry: "entry = (k, v)" by (cases entry)
  with Cons.prems have "get_prop d k = v"
    by (intro get_prop_entry [OF assms(1)]) simp
  moreover from Cons.prems have "set rest \<subseteq> set (entries d)" by simp
  ultimately show ?case
    by (simp add: entry Cons.IH)
qed

text \<open>
  C10. The two dictionary classes treat an \<^verbatim>\<open>undefined\<close> value differently. For a
  dictionary that has each key once, \<^verbatim>\<open>EscapeAndDictionary\<close> renders and binds only the
  entries whose value is not \<^verbatim>\<open>undefined\<close>, as if the others were not there, while
  \<^verbatim>\<open>EscapeDictionary\<close> renders every key and binds every value, \<^verbatim>\<open>undefined\<close>
  included.
\<close>

theorem andDictionary_skips_undefined_dictionary_binds_it:
  assumes "d \<noteq> JUndefined" and "distinct (own_keys d)"
  shows "parse_arg (Escape EscapeAndDictionary d) vals
      = Inr (concat (map (\<lambda>(n, k, v). '' AND '' @ escapeIdentifier k @ ''=$'' @ nat_to_string n)
                      (enumerate (Suc (length vals))
                         (filter (\<lambda>(k, v). v \<noteq> JUndefined) (entries d)))),
             vals @ map snd (filter (\<lambda>(k, v). v \<noteq> JUndefined) (entries d)))
    \<and> parse_arg (Escape EscapeDictionary d) vals
      = Inr (join '', '' (map (\<lambda>(n, k, v). escapeIdentifier k @ ''=$'' @ nat_to_string n)
                           (enumerate (Suc (length vals)) (entries d))),
             vals @ map snd (entries d))"
proof -
  have "parseAndDictionary d vals
      = (concat (map (\<lambda>(n, k, v). '' AND '' @ escapeIdentifier k @ ''=$'' @ nat_to_string n)
                  (enumerate (Suc (length vals))
                     (filter (\<lambda>(k, v). v \<noteq> JUndefined) (entries d)))),
         vals @ map snd (filter (\<lambda>(k, v). v \<noteq> JUndefined) (entries d)))"
    unfolding parseAndDictionary_def own_keys_def
    by (simp add: andDictionary_loop_entries [OF assms(2)] join_empty_separator)
  moreover have "parseDictionary d vals
      = (join '', '' (map (\<lambda>(n, k, v). escapeIdentifier k @ ''=$'' @ nat_to_string n)
                       (enumerate (Suc (length vals)) (entries d))),
         vals @ map snd (entries d))"
    unfolding parseDictionary_def own_keys_def
    by (simp add: dictionary_loop_entries [OF assms(2)])
  ultimately show ?thesis using assms(1) by (simp add: parse_arg_def)
qed

theorem andDictionary_skips_undefined_dictionary_binds_it_witness:
  \<open>JObj [(''a'', JNum (Finite False 1 1)), (''b'', JUndefined)] \<noteq> JUndefined \<and>
   distinct (own_keys (JObj [(''a'', JNum (Finite False 1 1)), (''b'', JUndefined)])) \<and>
   parse_arg (Escape EscapeAndDictionary (JObj [(''a'', JNum (Finite False 1 1)), (''b'', JUndefined)])) []
     = Inr ('' AND "a"=$1'', [JNum (Finite False 1 1)]) \<and>
   parse_arg (Escape EscapeDictionary (JObj [(''a'', JNum (Finite False 1 1)), (''b'', JUndefined)])) []
     = Inr (''"a"=$1, "b"=$2'', [JNum (Finite False 1 1), JUndefined])\<close>
  using andDictionary_skips_undefined_dictionary_binds_it
    [of "JObj [(''a'', JNum (Finite False 1 1)), (''b'', JUndefined)]" "[]"]
  by (simp add: own_keys_def entries_def enumerate_eq_zip escapeIdentifier_def
      nat_to_string.simps [of "Suc (Suc 0)"])

section \<open>Properties of generateDbErrorMessage\<close>

text \<open>
  C2. The classifier is said never to throw, also when \<^verbatim>\<open>parameters\<close> is absent. The
  rule for a foreign key violation on insert reads the first element of
  \<^verbatim>\<open>parameters\<close> with no default: on an error of that kind whose query bound no
  parameter the function throws instead of returning a result.
\<close>

theorem generateDbErrorMessage_throws_without_parameters:
  \<open>generateDbErrorMessage
     \<lparr>error_message = ''insert or update on table "book" violates foreign key constraint "fk"'',
      error_detail = None, error_table = None,
      error_query = Some ''INSERT INTO book VALUES (1, 99)'',
      error_parameters = None, error_args = JUndefined\<rparr>
   = Inl TypeError\<close>
  by (simp add: generateDbErrorMessage_def re_exec_def tooManyClientsRegex_def
      queryTimeoutRegex_def deleteFkRegex_def insertFkRegex_def first_parameter_def
      line_terminator_def)

subsection \<open>A value too long, in a query that names no table\<close>

lemma re_match_Lit_prefix:
  assumes "re_match anchored (Lit l # items) s \<noteq> None"
  shows "s = l @ drop (length l) s"
proof -
  from assms have "take (length l) s = l" by (simp split: if_splits)
  then show ?thesis by (metis append_take_drop_id)
qed

lemma tooLong_excludes_earlier_rules:
  assumes "re_exec tooLongRegex m \<noteq> None"
  shows "re_exec tooManyClientsRegex m = None"
    and "re_exec queryTimeoutRegex m = None"
    and "re_exec deleteFkRegex m = None"
    and "re_exec insertFkRegex m = None"
    and "re_exec duplicateKeyRegex m = None"
proof -
  from assms obtain rest where m: "m = CHR ''v'' # rest"
    using re_match_Lit_prefix [of True "''value too long for type ''" "[Lazy True]" m]
    by (cases m) (auto simp: re_exec_def tooLongRegex_def)
  show "re_exec tooManyClientsRegex m = None"
    by (simp add: m re_exec_def tooManyClientsRegex_def)
  show "re_exec queryTimeoutRegex m = None"
    by (simp add: m re_exec_def queryTimeoutRegex_def)
  show "re_exec deleteFkRegex m = None"
    by (simp add: m re_exec_def deleteFkRegex_def)
  show "re_exec insertFkRegex m = None"
    by (simp add: m re_exec_def insertFkRegex_def)
  show "re_exec duplicateKeyRegex m = None"
    by (simp add: m re_exec_def duplicateKeyRegex_def)
qed

text \<open>
  C8. When the message matches the rule for a value that is too long and the query does
  not match the second expression, which looks for \<^verbatim>\<open>UPDATE\<close> or \<^verbatim>\<open>INSERT\<close> followed by
  a quoted name, the function returns the default result whole: the message for an
  unrecognized error and both flags false.
\<close>

theorem tooLong_without_table_is_default:
  assumes "re_exec tooLongRegex (error_message error) \<noteq> None"
    and "re_search analyzeQueryRegex (case error_query error of None \<Rightarrow> [] | Some q \<Rightarrow> q) = None"
  shows "generateDbErrorMessage error
     = Inr \<lparr>result_message =
              ''Unrecognized Database Error: '' @ error_message error @ ''. Detail: '' @
                opt_to_string (error_detail error),
            isTimeoutError = False, isTooManyConnectionsError = False\<rparr>"
proof -
  from assms(1) obtain tooLongResult
    where tooLong: "re_exec tooLongRegex (error_message error) = Some tooLongResult"
    by auto
  note earlier = tooLong_excludes_earlier_rules [OF assms(1)]
  show ?thesis
    unfolding generateDbErrorMessage_def Let_def
    by (simp only: earlier tooLong assms(2) default_results_def)
       simp
qed


theorem tooLong_without_table_is_default_witness:
  "re_exec tooLongRegex ''value too long for type character varying(5)'' \<noteq> None \<and>
   re_search analyzeQueryRegex ''INSERT INTO t (a) VALUES ($1)'' = None \<and>
   generateDbErrorMessage
     \<lparr>error_message = ''value too long for type character varying(5)'',
      error_detail = None, error_table = None,
      error_query = Some ''INSERT INTO t (a) VALUES ($1)'',
      error_parameters = Some [JStr ''abcdef''], error_args = JUndefined\<rparr>
   = Inr \<lparr>result_message =
            ''Unrecognized Database Error: value too long for type character varying(5). Detail: undefined'',
          isTimeoutError = False, isTooManyConnectionsError = False\<rparr>"
proof -
  have matches: "re_exec tooLongRegex ''value too long for type character varying(5)'' \<noteq> None"
    by (simp add: re_exec_def tooLongRegex_def line_terminator_def)
  have no_table: "re_search analyzeQueryRegex ''INSERT INTO t (a) VALUES ($1)'' = None"
    by (simp add: re_search_def analyzeQueryRegex_def line_terminator_def)
  show ?thesis
    using tooLong_without_table_is_default
      [of "\<lparr>error_message = ''value too long for type character varying(5)'',
            error_detail = None, error_table = None,
            error_query = Some ''INSERT INTO t (a) VALUES ($1)'',
            error_parameters = Some [JStr ''abcdef''], error_args = JUndefined\<rparr>"]
      matches no_table
    by (simp add: opt_to_string_def)
qed

section \<open>Properties of DBError\<close>

lemma timeout_classified:
  "generateDbErrorMessage
     \<lparr>error_message = ''Query read timeout'', error_detail = None, error_table = None,
      error_query = Some ''SELECT 1'', error_parameters = None, error_args = JUndefined\<rparr>
   = Inr \<lparr>result_message = ''Query timed out. Running query: SELECT 1'',
          isTimeoutError = True, isTooManyConnectionsError = False\<rparr>"
  by (simp add: generateDbErrorMessage_def re_exec_def tooManyClientsRegex_def
      queryTimeoutRegex_def default_results_def strip_newlines_def)

text \<open>
  C7. When the constructor classifies the error it is given, the status code of the new
  error is 429 exactly when the classifier has set one of its two flags, and 400
  exactly when it has set neither.
\<close>

theorem DBError_statusCode_follows_flags:
  assumes "isDatabaseError original
      \<or> string_includes (error_message (error_fields original)) ''Query read timeout''
      \<or> string_includes (error_message (error_fields original)) ''UNDEFINED_VALUE''"
    and "generateDbErrorMessage (error_fields original) = Inr r"
  shows "\<exists>e. new_DBError (OfError original) = Inr e \<and>
    db_message e = result_message r \<and>
    (statusCode e = 429 \<longleftrightarrow> isTimeoutError r \<or> isTooManyConnectionsError r) \<and>
    (statusCode e = 400 \<longleftrightarrow> \<not> (isTimeoutError r \<or> isTooManyConnectionsError r))"
  using assms by (auto simp: new_DBError_def)

theorem DBError_statusCode_follows_flags_witness:
  "\<exists>e. new_DBError (OfError \<lparr>isDatabaseError = False, error_fields =
       \<lparr>error_message = ''Query read timeout'', error_detail = None, error_table = None,
        error_query = Some ''SELECT 1'', error_parameters = None, error_args = JUndefined\<rparr>\<rparr>) = Inr e \<and>
     db_message e = ''Query timed out. Running query: SELECT 1'' \<and> statusCode e = 429"
proof -
  have inc: "string_includes ''Query read timeout'' ''Query read timeout''" by simp
  show ?thesis
    using DBError_statusCode_follows_flags [of "\<lparr>isDatabaseError = False, error_fields =
       \<lparr>error_message = ''Query read timeout'', error_detail = None, error_table = None,
        error_query = Some ''SELECT 1'', error_parameters = None, error_args = JUndefined\<rparr>\<rparr>"
        "\<lparr>result_message = ''Query timed out. Running query: SELECT 1'',
          isTimeoutError = True, isTooManyConnectionsError = False\<rparr>"]
      timeout_classified inc
    by auto
qed

end
